theory Spec2Isabelle
  imports Complex_Main
begin

section \<open>JavaScript values used by the dashboard and the server\<close>

text \<open>
  A JavaScript number is modelled as an exact real extended with the two infinities and
  NaN. The rounding of IEEE doubles is not modelled: a finite result is the exact
  quotient or product. Zero is unsigned: every zero that \<open>analyzeFinancialData\<close>
  divides by has passed through \<open>x || 0\<close>, which already maps \<open>-0\<close> to \<open>+0\<close>.
  A property that is \<open>undefined\<close> or \<open>null\<close> is \<open>None\<close>.
\<close>

datatype jsnum = Num real | PosInf | NegInf | NaN

text \<open>ToBoolean on a number: \<open>0\<close> and NaN are falsy.\<close>

fun truthy :: "jsnum \<Rightarrow> bool" where
  "truthy (Num x) = (x \<noteq> 0)"
| "truthy PosInf = True"
| "truthy NegInf = True"
| "truthy NaN = False"

text \<open>\<open>v || d\<close> where \<open>v\<close> is a number.\<close>

definition num_or :: "jsnum \<Rightarrow> jsnum \<Rightarrow> jsnum" where
  "num_or v d = (if truthy v then v else d)"

text \<open>\<open>v || d\<close> where \<open>v\<close> may be \<open>undefined\<close> or \<open>null\<close>.\<close>

definition opt_or :: "jsnum option \<Rightarrow> jsnum \<Rightarrow> jsnum" where
  "opt_or v d = (case v of None \<Rightarrow> d | Some x \<Rightarrow> num_or x d)"

text \<open>The operator \<open>/\<close>.\<close>

fun js_div :: "jsnum \<Rightarrow> jsnum \<Rightarrow> jsnum" where
  "js_div (Num a) (Num b) =
     (if b \<noteq> 0 then Num (a / b)
      else if a = 0 then NaN
      else if 0 < a then PosInf else NegInf)"
| "js_div (Num a) PosInf = Num 0"
| "js_div (Num a) NegInf = Num 0"
| "js_div (Num a) NaN = NaN"
| "js_div PosInf (Num b) = (if 0 \<le> b then PosInf else NegInf)"
| "js_div PosInf PosInf = NaN"
| "js_div PosInf NegInf = NaN"
| "js_div PosInf NaN = NaN"
| "js_div NegInf (Num b) = (if 0 \<le> b then NegInf else PosInf)"
| "js_div NegInf PosInf = NaN"
| "js_div NegInf NegInf = NaN"
| "js_div NegInf NaN = NaN"
| "js_div NaN b = NaN"

text \<open>The operator \<open>*\<close>.\<close>

fun js_mul :: "jsnum \<Rightarrow> jsnum \<Rightarrow> jsnum" where
  "js_mul (Num a) (Num b) = Num (a * b)"
| "js_mul (Num a) PosInf = (if a = 0 then NaN else if 0 < a then PosInf else NegInf)"
| "js_mul (Num a) NegInf = (if a = 0 then NaN else if 0 < a then NegInf else PosInf)"
| "js_mul (Num a) NaN = NaN"
| "js_mul PosInf (Num b) = (if b = 0 then NaN else if 0 < b then PosInf else NegInf)"
| "js_mul PosInf PosInf = PosInf"
| "js_mul PosInf NegInf = NegInf"
| "js_mul PosInf NaN = NaN"
| "js_mul NegInf (Num b) = (if b = 0 then NaN else if 0 < b then NegInf else PosInf)"
| "js_mul NegInf PosInf = NegInf"
| "js_mul NegInf NegInf = PosInf"
| "js_mul NegInf NaN = NaN"
| "js_mul NaN b = NaN"

text \<open>The comparisons \<open><\<close>, \<open>>\<close> and \<open><=\<close>: every comparison with NaN is false.\<close>

fun js_lt :: "jsnum \<Rightarrow> jsnum \<Rightarrow> bool" where
  "js_lt (Num a) (Num b) = (a < b)"
| "js_lt (Num a) PosInf = True"
| "js_lt (Num a) NegInf = False"
| "js_lt (Num a) NaN = False"
| "js_lt PosInf b = False"
| "js_lt NegInf (Num b) = True"
| "js_lt NegInf PosInf = True"
| "js_lt NegInf NegInf = False"
| "js_lt NegInf NaN = False"
| "js_lt NaN b = False"

definition js_gt :: "jsnum \<Rightarrow> jsnum \<Rightarrow> bool" where
  "js_gt a b = js_lt b a"

definition js_le :: "jsnum \<Rightarrow> jsnum \<Rightarrow> bool" where
  "js_le a b = (a \<noteq> NaN \<and> b \<noteq> NaN \<and> \<not> js_lt b a)"

text \<open>\<open>Math.abs\<close>, used only to state the trade value the way the specification does.\<close>

fun js_abs :: "jsnum \<Rightarrow> jsnum" where
  "js_abs (Num a) = Num \<bar>a\<bar>"
| "js_abs PosInf = PosInf"
| "js_abs NegInf = PosInf"
| "js_abs NaN = NaN"

section \<open>The ratio analyzer (public/app.js)\<close>

text \<open>
  The financials object of the provider: every level may be missing, which the source
  reads through optional chaining (\<open>financials.income_statement?.revenues?.value\<close>).
\<close>

record line_item =
  val :: "jsnum option"

record income_statement_t =
  revenues :: "line_item option"
  net_income_loss :: "line_item option"

record balance_sheet_t =
  assets :: "line_item option"
  current_assets :: "line_item option"
  current_liabilities :: "line_item option"
  liabilities :: "line_item option"
  equity :: "line_item option"

record financials_t =
  income_statement :: "income_statement_t option"
  balance_sheet :: "balance_sheet_t option"

record financialData_t =
  financials :: "financials_t option"

text \<open>
  The six ratios. The analysis carries \<open>details = None\<close> for the empty object \<open>{}\<close>
  that the source returns when there are no financials.
\<close>

record ratios =
  netProfitMargin :: jsnum
  returnOnAssets :: jsnum
  returnOnEquity :: jsnum
  currentRatio :: jsnum
  debtToEquity :: jsnum
  assetTurnover :: jsnum

record analysis =
  recommendation :: string
  details :: "ratios option"

text \<open>\<open>stmt?.item?.value\<close> for an optional statement \<open>stmt\<close>.\<close>

definition chain_value :: "'s option \<Rightarrow> ('s \<Rightarrow> line_item option) \<Rightarrow> jsnum option" where
  "chain_value stmt item = Option.bind (Option.bind stmt item) val"

definition analyzeFinancialData :: "financialData_t \<Rightarrow> analysis" where
  "analyzeFinancialData financialData =
    (case financials financialData of
       None \<Rightarrow> \<lparr>recommendation = ''HOLD'', details = None\<rparr>
     | Some fin \<Rightarrow>
        (let revenues = opt_or (chain_value (income_statement fin) revenues) (Num 0);
             netIncome = opt_or (chain_value (income_statement fin) net_income_loss) (Num 0);
             totalAssets = opt_or (chain_value (balance_sheet fin) assets) (Num 0);
             currentAssets = opt_or (chain_value (balance_sheet fin) current_assets) (Num 0);
             currentLiabilities =
               opt_or (chain_value (balance_sheet fin) current_liabilities) (Num 1);
             totalLiabilities = opt_or (chain_value (balance_sheet fin) liabilities) (Num 0);
             equity = opt_or (chain_value (balance_sheet fin) equity) (Num 1);
             netProfitMargin = num_or (js_mul (js_div netIncome revenues) (Num 100)) (Num 0);
             returnOnAssets = num_or (js_mul (js_div netIncome totalAssets) (Num 100)) (Num 0);
             returnOnEquity = num_or (js_mul (js_div netIncome equity) (Num 100)) (Num 0);
             currentRatio = num_or (js_div currentAssets currentLiabilities) (Num 0);
             debtToEquity = num_or (js_div totalLiabilities equity) (Num 0);
             assetTurnover = num_or (js_div revenues totalAssets) (Num 0);
             recommendation =
               (if js_gt netProfitMargin (Num 10) \<and>
                   js_gt returnOnAssets (Num 5) \<and>
                   js_gt returnOnEquity (Num 10) \<and>
                   js_gt currentRatio (Num 1.5) \<and>
                   js_lt debtToEquity (Num 2)
                then ''BUY''
                else if js_lt netProfitMargin (Num 0) \<or>
                        js_lt returnOnAssets (Num 1) \<or>
                        js_lt currentRatio (Num 1)
                then ''SELL''
                else ''HOLD'')
         in \<lparr>recommendation = recommendation,
             details = Some \<lparr>netProfitMargin = netProfitMargin,
                             returnOnAssets = returnOnAssets,
                             returnOnEquity = returnOnEquity,
                             currentRatio = currentRatio,
                             debtToEquity = debtToEquity,
                             assetTurnover = assetTurnover\<rparr>\<rparr>))"

text \<open>
  The formulas as the specification words them, for comparison with the source: a field
  of the financials snapshot defaults when it is absent (to 1 for the two denominators
  that the source protects, to 0 otherwise), and a result that is NaN becomes 0.
\<close>

definition snapshot_field :: "jsnum \<Rightarrow> jsnum option \<Rightarrow> jsnum" where
  "snapshot_field d v = (case v of None \<Rightarrow> d | Some x \<Rightarrow> x)"

definition nan_to_zero :: "jsnum \<Rightarrow> jsnum" where
  "nan_to_zero x = (if x = NaN then Num 0 else x)"

definition formula_ratios ::
  "jsnum \<Rightarrow> jsnum \<Rightarrow> jsnum \<Rightarrow> jsnum \<Rightarrow> jsnum \<Rightarrow> jsnum \<Rightarrow> jsnum \<Rightarrow> ratios" where
  "formula_ratios revenue netIncome totalAssets currentAssets currentLiabilities
       totalLiabilities equityV =
     \<lparr>netProfitMargin = nan_to_zero (js_mul (js_div netIncome revenue) (Num 100)),
      returnOnAssets = nan_to_zero (js_mul (js_div netIncome totalAssets) (Num 100)),
      returnOnEquity = nan_to_zero (js_mul (js_div netIncome equityV) (Num 100)),
      currentRatio = nan_to_zero (js_div currentAssets currentLiabilities),
      debtToEquity = nan_to_zero (js_div totalLiabilities equityV),
      assetTurnover = nan_to_zero (js_div revenue totalAssets)\<rparr>"

definition spec_ratios :: "financials_t \<Rightarrow> ratios" where
  "spec_ratios fin =
     formula_ratios
       (snapshot_field (Num 0) (chain_value (income_statement fin) revenues))
       (snapshot_field (Num 0) (chain_value (income_statement fin) net_income_loss))
       (snapshot_field (Num 0) (chain_value (balance_sheet fin) assets))
       (snapshot_field (Num 0) (chain_value (balance_sheet fin) current_assets))
       (snapshot_field (Num 1) (chain_value (balance_sheet fin) current_liabilities))
       (snapshot_field (Num 0) (chain_value (balance_sheet fin) liabilities))
       (snapshot_field (Num 1) (chain_value (balance_sheet fin) equity))"

text \<open>
  What the source reads instead: a field that is absent, zero or NaN takes the default.
\<close>

definition field_or_default :: "jsnum \<Rightarrow> jsnum option \<Rightarrow> jsnum" where
  "field_or_default d v =
     (case v of None \<Rightarrow> d | Some x \<Rightarrow> if x = Num 0 \<or> x = NaN then d else x)"

text \<open>
  The division-by-zero policy of the specification read strictly: a zero denominator,
  like a NaN result, gives 0.
\<close>

definition policy_div :: "jsnum \<Rightarrow> jsnum \<Rightarrow> jsnum" where
  "policy_div a b = (if b = Num 0 then Num 0 else nan_to_zero (js_div a b))"

definition policy_ratios ::
  "jsnum \<Rightarrow> jsnum \<Rightarrow> jsnum \<Rightarrow> jsnum \<Rightarrow> jsnum \<Rightarrow> jsnum \<Rightarrow> jsnum \<Rightarrow> ratios" where
  "policy_ratios revenue netIncome totalAssets currentAssets currentLiabilities
       totalLiabilities equityV =
     \<lparr>netProfitMargin = js_mul (policy_div netIncome revenue) (Num 100),
      returnOnAssets = js_mul (policy_div netIncome totalAssets) (Num 100),
      returnOnEquity = js_mul (policy_div netIncome equityV) (Num 100),
      currentRatio = policy_div currentAssets currentLiabilities,
      debtToEquity = policy_div totalLiabilities equityV,
      assetTurnover = policy_div revenue totalAssets\<rparr>"

definition spec_ratios_policy :: "financials_t \<Rightarrow> ratios" where
  "spec_ratios_policy fin =
     policy_ratios
       (snapshot_field (Num 0) (chain_value (income_statement fin) revenues))
       (snapshot_field (Num 0) (chain_value (income_statement fin) net_income_loss))
       (snapshot_field (Num 0) (chain_value (balance_sheet fin) assets))
       (snapshot_field (Num 0) (chain_value (balance_sheet fin) current_assets))
       (snapshot_field (Num 1) (chain_value (balance_sheet fin) current_liabilities))
       (snapshot_field (Num 0) (chain_value (balance_sheet fin) liabilities))
       (snapshot_field (Num 1) (chain_value (balance_sheet fin) equity))"

text \<open>
  The seven operands as the source reads them from a financials object: 0 for a missing
  (or zero, or NaN) revenue, net income, total assets, current assets or total
  liabilities; 1 for a missing current liabilities or equity and also for one that is
  reported as 0.
\<close>

definition revenue_read :: "financials_t \<Rightarrow> jsnum" where
  "revenue_read fin = field_or_default (Num 0) (chain_value (income_statement fin) revenues)"

definition netIncome_read :: "financials_t \<Rightarrow> jsnum" where
  "netIncome_read fin =
     field_or_default (Num 0) (chain_value (income_statement fin) net_income_loss)"

definition totalAssets_read :: "financials_t \<Rightarrow> jsnum" where
  "totalAssets_read fin = field_or_default (Num 0) (chain_value (balance_sheet fin) assets)"

definition currentAssets_read :: "financials_t \<Rightarrow> jsnum" where
  "currentAssets_read fin =
     field_or_default (Num 0) (chain_value (balance_sheet fin) current_assets)"

definition currentLiabilities_read :: "financials_t \<Rightarrow> jsnum" where
  "currentLiabilities_read fin =
     field_or_default (Num 1) (chain_value (balance_sheet fin) current_liabilities)"

definition totalLiabilities_read :: "financials_t \<Rightarrow> jsnum" where
  "totalLiabilities_read fin =
     field_or_default (Num 0) (chain_value (balance_sheet fin) liabilities)"

definition equity_read :: "financials_t \<Rightarrow> jsnum" where
  "equity_read fin = field_or_default (Num 1) (chain_value (balance_sheet fin) equity)"

text \<open>The six formulas over the operands as read.\<close>

definition ratios_as_read :: "financials_t \<Rightarrow> ratios" where
  "ratios_as_read fin =
     policy_ratios (revenue_read fin) (netIncome_read fin) (totalAssets_read fin)
       (currentAssets_read fin) (currentLiabilities_read fin) (totalLiabilities_read fin)
       (equity_read fin)"

text \<open>
  No ratio divides a non-zero numerator by a zero revenue or by zero total assets. (The
  other two denominators are never zero as read.)
\<close>

definition quotients_defined :: "financials_t \<Rightarrow> bool" where
  "quotients_defined fin =
     ((revenue_read fin = Num 0 \<longrightarrow> netIncome_read fin = Num 0) \<and>
      (totalAssets_read fin = Num 0 \<longrightarrow>
         netIncome_read fin = Num 0 \<and> revenue_read fin = Num 0))"

text \<open>The decision rule as the specification words it.\<close>

definition buy_condition :: "ratios \<Rightarrow> bool" where
  "buy_condition d =
     (js_gt (netProfitMargin d) (Num 10) \<and> js_gt (returnOnAssets d) (Num 5) \<and>
      js_gt (returnOnEquity d) (Num 10) \<and> js_gt (currentRatio d) (Num 1.5) \<and>
      js_lt (debtToEquity d) (Num 2))"

definition sell_condition :: "ratios \<Rightarrow> bool" where
  "sell_condition d =
     (js_lt (netProfitMargin d) (Num 0) \<or> js_lt (returnOnAssets d) (Num 1) \<or>
      js_lt (currentRatio d) (Num 1))"

text \<open>Helpers to write a financials object down.\<close>

definition item :: "real \<Rightarrow> line_item option" where
  "item x = Some \<lparr>val = Some (Num x)\<rparr>"

definition mk_financialData ::
  "real \<Rightarrow> real \<Rightarrow> real \<Rightarrow> real \<Rightarrow> real \<Rightarrow> real \<Rightarrow> real \<Rightarrow> financialData_t" where
  "mk_financialData rv ni ta ca cl tlb eqv =
     \<lparr>financials = Some
        \<lparr>income_statement = Some \<lparr>revenues = item rv, net_income_loss = item ni\<rparr>,
         balance_sheet = Some \<lparr>assets = item ta, current_assets = item ca,
           current_liabilities = item cl, liabilities = item tlb, equity = item eqv\<rparr>\<rparr>\<rparr>"

section \<open>The transaction table (public/app.js, displayData)\<close>

record trade =
  symbol :: "string option"
  name :: "string option"
  transactionCode :: "string option"
  change :: "jsnum option"
  transactionPrice :: "jsnum option"
  transactionDate :: "string option"

text \<open>\<open>s || d\<close> on an optional string: the empty string is falsy.\<close>

definition str_or :: "string option \<Rightarrow> string \<Rightarrow> string" where
  "str_or s d = (case s of None \<Rightarrow> d | Some x \<Rightarrow> if x = [] then d else x)"

text \<open>
  \<open>parseFloat\<close> applied to a number prints it and reads it back, which returns the
  number.
\<close>

definition parseFloat :: "jsnum \<Rightarrow> jsnum" where
  "parseFloat x = x"

text \<open>ToNumber on a value that may be \<open>null\<close>: \<open>null\<close> converts to \<open>0\<close>.\<close>

definition to_number :: "jsnum option \<Rightarrow> jsnum" where
  "to_number v = (case v of None \<Rightarrow> Num 0 | Some x \<Rightarrow> x)"

text \<open>The local constants of the loop body, one definition each.\<close>

definition row_shares :: "trade \<Rightarrow> jsnum" where
  "row_shares t = opt_or (change t) (Num 0)"

definition row_price :: "trade \<Rightarrow> jsnum option" where
  "row_price t =
     (case transactionPrice t of
        None \<Rightarrow> None
      | Some p \<Rightarrow> if truthy p then Some (parseFloat p) else None)"

definition tradeValue :: "trade \<Rightarrow> jsnum" where
  "tradeValue t =
     (case row_price t of
        None \<Rightarrow> Num 0
      | Some price \<Rightarrow>
          if truthy price \<and> truthy (row_shares t) then js_mul price (row_shares t)
          else Num 0)"

definition row_class :: "trade \<Rightarrow> string list" where
  "row_class t =
     (if str_or (transactionCode t) ''N/A'' = ''P''
      then (if js_le (to_number (row_price t)) (Num 2)
            then [''highlight-green-bold'']
            else [''highlight-green''])
      else [])"

text \<open>
  A table cell that shows an amount: the text \<open>N/A\<close> or a dollar amount. The digits
  printed by \<open>toFixed\<close> and \<open>toLocaleString\<close> are not modelled.
\<close>

datatype cell = NA | Dollars jsnum

record row =
  classList :: "string list"
  company :: string
  insider :: string
  transactionType :: string
  shares :: jsnum
  priceCell :: cell
  valueCell :: cell
  dateCell :: string

definition render_row :: "trade \<Rightarrow> row" where
  "render_row t =
     \<lparr>classList = row_class t,
      company = str_or (symbol t) ''N/A'',
      insider = str_or (name t) ''N/A'',
      transactionType = str_or (transactionCode t) ''N/A'',
      shares = row_shares t,
      priceCell = (case row_price t of
                     None \<Rightarrow> NA
                   | Some price \<Rightarrow> if truthy price then Dollars price else NA),
      valueCell = (if truthy (tradeValue t) then Dollars (tradeValue t) else NA),
      dateCell = str_or (transactionDate t) ''N/A''\<rparr>"

definition displayData :: "trade list \<Rightarrow> row list" where
  "displayData data = map render_row data"

definition mk_trade :: "string \<Rightarrow> string \<Rightarrow> jsnum option \<Rightarrow> jsnum option \<Rightarrow> trade" where
  "mk_trade ticker code chg price =
     \<lparr>symbol = Some ticker, name = Some ''J. Doe'', transactionCode = Some code,
      change = chg, transactionPrice = price, transactionDate = Some ''2024-01-02''\<rparr>"

section \<open>The detail view (public/app.js, row click handler and showModal)\<close>

text \<open>
  Exceptions are values. An axios error carries the status of the provider's response
  when there was one.
\<close>

datatype js_error = TypeError string | AxiosError "nat option" string

fun error_message :: "js_error \<Rightarrow> string" where
  "error_message (TypeError m) = m"
| "error_message (AxiosError s m) = m"

text \<open>\<open>error.response?.status\<close>: only an axios error has a response.\<close>

fun response_status :: "js_error \<Rightarrow> nat option" where
  "response_status (TypeError m) = None"
| "response_status (AxiosError s m) = s"

record stockInfo_t =
  price :: "jsnum option"
  high :: "jsnum option"
  low :: "jsnum option"
  volume :: "jsnum option"

text \<open>
  The modal: its title, its content (the recommendation and the six printed ratios, in
  the order of the table), its \<open>display\<close> style and the data of the live chart
  (\<open>financialChartInstance\<close>).
\<close>

record modal_content =
  shownRecommendation :: string
  shownRatios :: "jsnum list"

record modal_t =
  modalTitle :: string
  modalContent :: "modal_content option"
  display :: string
  financialChartInstance :: "jsnum list option"

text \<open>
  \<open>createChart\<close>, with the canvas and its context present. Reading
  \<open>financialData.financials.income_statement\<close> throws when \<open>financials\<close> is missing;
  the old chart has been destroyed by then.
\<close>

definition createChart :: "modal_t \<Rightarrow> financialData_t \<Rightarrow> modal_t \<times> js_error option" where
  "createChart m financialData =
     (let m1 = m\<lparr>financialChartInstance := None\<rparr> in
      case financials financialData of
        None \<Rightarrow> (m1, Some (TypeError ''Cannot read properties of undefined''))
      | Some fin \<Rightarrow>
          (m1\<lparr>financialChartInstance := Some
               [opt_or (chain_value (income_statement fin) revenues) (Num 0),
                opt_or (chain_value (income_statement fin) net_income_loss) (Num 0),
                opt_or (chain_value (balance_sheet fin) assets) (Num 0),
                opt_or (chain_value (balance_sheet fin) liabilities) (Num 0),
                opt_or (chain_value (balance_sheet fin) equity) (Num 0)]\<rparr>, None))"

text \<open>
  \<open>showModal\<close> returns the modal it leaves behind and the exception, if one was thrown.
  The title is set first. Building the content calls \<open>toFixed\<close> on each of the six
  properties of \<open>details\<close>; on the empty object \<open>{}\<close> the first of them is
  \<open>undefined\<close> and the call throws, before the content and the display style are
  assigned.
\<close>

definition showModal ::
  "modal_t \<Rightarrow> string \<Rightarrow> stockInfo_t \<Rightarrow> analysis \<Rightarrow> financialData_t option
     \<Rightarrow> modal_t \<times> js_error option" where
  "showModal m companyName stockInfo recommendationData financialData =
     (let m1 = m\<lparr>modalTitle := ''Detailed Analysis for '' @ companyName\<rparr> in
      case details recommendationData of
        None \<Rightarrow> (m1, Some (TypeError ''Cannot read properties of undefined (reading toFixed)''))
      | Some d \<Rightarrow>
          (let m2 = m1\<lparr>modalContent := Some
                        \<lparr>shownRecommendation = recommendation recommendationData,
                         shownRatios = [netProfitMargin d, returnOnAssets d, returnOnEquity d,
                                        currentRatio d, debtToEquity d, assetTurnover d]\<rparr>,
                      display := ''flex''\<rparr> in
           case financialData of
             None \<Rightarrow> (m2, None)
           | Some fd \<Rightarrow> createChart m2 fd))"

text \<open>
  The click handler of a row, given what the two fetches returned (\<open>None\<close> for
  \<open>null\<close>).
\<close>

definition row_click ::
  "modal_t \<Rightarrow> string \<Rightarrow> stockInfo_t option \<Rightarrow> financialData_t option
     \<Rightarrow> modal_t \<times> js_error option" where
  "row_click m companyName stockInfo financialData =
     (case stockInfo of
        None \<Rightarrow> (m, None)
      | Some si \<Rightarrow>
          (let recommendationData =
                 (case financialData of
                    Some fd \<Rightarrow> analyzeFinancialData fd
                  | None \<Rightarrow> \<lparr>recommendation = ''HOLD'', details = None\<rparr>)
           in showModal m companyName si recommendationData financialData))"

definition closed_modal :: modal_t where
  "closed_modal = \<lparr>modalTitle = [], modalContent = None, display = ''none'',
                   financialChartInstance = None\<rparr>"

definition some_stockInfo :: stockInfo_t where
  "some_stockInfo = \<lparr>price = Some (Num 1.5), high = Some (Num 2), low = Some (Num 1),
                    volume = Some (Num 1000)\<rparr>"

section \<open>The symbol filter (server)\<close>

text \<open>
  The regular expression \<open>/^[A-Z]+$/\<close> is a sequence of three items: the start
  assertion, one or more code units of a range, the end assertion. A subject string is a
  list of characters, a character standing for the code unit \<open>of_char c\<close>; a
  character outside ASCII is outside the range 65 to 90 however it is encoded.
\<close>

datatype rx_item = AssertStart | AssertEnd | RangePlus nat nat

text \<open>
  Backtracking match of a sequence of items at position \<open>pos\<close>, where \<open>rest\<close> is the
  subject from that position on. \<open>RangePlus\<close> takes one code unit and then either goes
  on taking or hands over to the items that follow. There is no multiline flag, so the
  end assertion holds at the end of the subject only.
\<close>

fun rx_match :: "rx_item list \<Rightarrow> nat \<Rightarrow> string \<Rightarrow> bool" where
  "rx_match [] pos rest = True"
| "rx_match (AssertStart # items) pos rest = (pos = 0 \<and> rx_match items pos rest)"
| "rx_match (AssertEnd # items) pos rest = (rest = [] \<and> rx_match items pos rest)"
| "rx_match (RangePlus lo hi # items) pos [] = False"
| "rx_match (RangePlus lo hi # items) pos (c # cs) =
     (lo \<le> of_char c \<and> of_char c \<le> hi \<and>
      (rx_match (RangePlus lo hi # items) (Suc pos) cs \<or> rx_match items (Suc pos) cs))"

text \<open>\<open>RegExp.prototype.test\<close>: try every start position from the left.\<close>

fun rx_search :: "rx_item list \<Rightarrow> nat \<Rightarrow> string \<Rightarrow> bool" where
  "rx_search items pos [] = rx_match items pos []"
| "rx_search items pos (c # cs) =
     (rx_match items pos (c # cs) \<or> rx_search items (Suc pos) cs)"

definition rx_test :: "rx_item list \<Rightarrow> string \<Rightarrow> bool" where
  "rx_test items s = rx_search items 0 s"

definition isUsEquity :: "string \<Rightarrow> bool" where
  "isUsEquity symbolText = rx_test [AssertStart, RangePlus 65 90, AssertEnd] symbolText"

text \<open>
  The argument of \<open>test\<close> is converted to a string: a missing symbol becomes the text
  \<open>undefined\<close>.
\<close>

definition symbol_text :: "trade \<Rightarrow> string" where
  "symbol_text t = (case symbol t of None \<Rightarrow> ''undefined'' | Some s \<Rightarrow> s)"

text \<open>An uppercase ASCII letter, as the specification words the filter.\<close>

definition upper_letter :: "char \<Rightarrow> bool" where
  "upper_letter c = (c \<in> set ''ABCDEFGHIJKLMNOPQRSTUVWXYZ'')"

section \<open>The transaction store and the refresh (server)\<close>

text \<open>
  What a provider gives back to one request: nothing (the network failed), or a status
  and a body. \<open>axios.get\<close> resolves with the body on a 2xx status and rejects otherwise.
\<close>

datatype 'b reply = Unreachable string | Reply nat 'b

fun axios_get :: "'b reply \<Rightarrow> js_error + 'b" where
  "axios_get (Unreachable m) = Inl (AxiosError None m)"
| "axios_get (Reply st b) =
     (if 200 \<le> st \<and> st < 300 then Inr b
      else Inl (AxiosError (Some st) ''Request failed with status code''))"

text \<open>
  The body of the transactions provider as far as the refresh looks at it:
  \<open>response.data\<close> is missing, or has no array under \<open>data\<close>, or has an array whose
  elements are objects or \<open>null\<close>.
\<close>

datatype finnhub_body = NoBody | NoDataArray | DataArray "trade option list"

text \<open>
  \<open>array.filter((trade) => isUsEquity(trade.symbol))\<close>: reading \<open>symbol\<close> of a
  \<open>null\<close> element throws.
\<close>

fun filter_trades :: "trade option list \<Rightarrow> js_error + trade list" where
  "filter_trades [] = Inr []"
| "filter_trades (None # rest) = Inl (TypeError ''Cannot read properties of null'')"
| "filter_trades (Some t # rest) =
     (case filter_trades rest of
        Inl e \<Rightarrow> Inl e
      | Inr kept \<Rightarrow> Inr (if isUsEquity (symbol_text t) then t # kept else kept))"

text \<open>The right-hand side of the assignment to \<open>insiderData\<close>.\<close>

fun filtered_response :: "finnhub_body \<Rightarrow> js_error + trade list" where
  "filtered_response NoBody = Inl (TypeError ''Cannot read properties of undefined'')"
| "filtered_response NoDataArray = Inl (TypeError ''Cannot read properties of undefined'')"
| "filtered_response (DataArray items) = filter_trades items"

record server =
  insiderData :: "trade list"
  console :: "string list"

text \<open>
  The body of the \<open>try\<close> block up to the assignment: the request, then the filter.
  Either of them may throw, and the one \<open>catch\<close> block takes the exception.
\<close>

definition try_refresh :: "finnhub_body reply \<Rightarrow> js_error + trade list" where
  "try_refresh r =
     (case axios_get r of
        Inl e \<Rightarrow> Inl e
      | Inr body \<Rightarrow> filtered_response body)"

definition fetchInsiderTradingData :: "server \<Rightarrow> finnhub_body reply \<Rightarrow> server" where
  "fetchInsiderTradingData s r =
     (case try_refresh r of
        Inr kept \<Rightarrow>
          s\<lparr>insiderData := kept,
            console := console s @ [''Insider trading data updated for US equities only.'']\<rparr>
      | Inl e \<Rightarrow>
          s\<lparr>console := console s @ [''Error fetching insider trading data: '' @ error_message e]\<rparr>)"

text \<open>The handler of \<open>/api/insider-trades\<close> sends the store as it is.\<close>

definition getTransactions :: "server \<Rightarrow> trade list" where
  "getTransactions s = insiderData s"

definition initial_server :: server where
  "initial_server = \<lparr>insiderData = [], console = []\<rparr>"

text \<open>
  A run of the server: the refreshes complete one after the other, each with the reply
  it got. The body of \<open>fetchInsiderTradingData\<close> after the \<open>await\<close> runs to completion,
  so a read of the store falls between two steps of the run.
\<close>

fun run :: "server \<Rightarrow> finnhub_body reply list \<Rightarrow> server" where
  "run s [] = s"
| "run s (r # rs) = run (fetchInsiderTradingData s r) rs"

text \<open>
  The records of a reply whose refresh succeeds: a 2xx status and an array without
  \<open>null\<close> elements. Every other reply is a failed refresh.
\<close>

fun complete_response :: "finnhub_body reply \<Rightarrow> trade list option" where
  "complete_response (Reply st (DataArray items)) =
     (if 200 \<le> st \<and> st < 300 \<and> None \<notin> set items then Some (map the items) else None)"
| "complete_response (Reply st NoBody) = None"
| "complete_response (Reply st NoDataArray) = None"
| "complete_response (Unreachable m) = None"

text \<open>The records of the last complete response of a run, if there was one.\<close>

fun last_complete :: "finnhub_body reply list \<Rightarrow> trade list option" where
  "last_complete [] = None"
| "last_complete (r # rs) =
     (case last_complete rs of
        Some items \<Rightarrow> Some items
      | None \<Rightarrow> complete_response r)"

section \<open>The two forwarding endpoints (server)\<close>

datatype 'j sent = Json 'j | Text string

record 'j http_response =
  status :: nat
  sent :: "'j sent"

text \<open>
  \<open>/api/tiingo\<close>: the body of the price provider is an array of rows, or something
  without a positive \<open>length\<close> (\<open>None\<close>).
\<close>

definition api_tiingo :: "string \<Rightarrow> 'r list option reply \<Rightarrow> 'r list http_response" where
  "api_tiingo symbolQ r =
     (case axios_get r of
        Inr body \<Rightarrow>
          (case body of
             Some rows \<Rightarrow>
               if 0 < length rows then \<lparr>status = 200, sent = Json rows\<rparr>
               else \<lparr>status = 404,
                     sent = Text (''No stock price data available for symbol: '' @ symbolQ)\<rparr>
           | None \<Rightarrow>
               \<lparr>status = 404,
                 sent = Text (''No stock price data available for symbol: '' @ symbolQ)\<rparr>)
      | Inl e \<Rightarrow>
          \<lparr>status = (case response_status e of
                       None \<Rightarrow> 500
                     | Some st \<Rightarrow> if st \<noteq> 0 then st else 500),
            sent = Text ''Error fetching stock price data''\<rparr>)"

text \<open>
  \<open>/api/polygon-financials\<close>: the body of the financials provider has an optional array
  \<open>results\<close>.
\<close>

record polygon_body =
  results :: "financialData_t list option"

definition api_polygon_financials ::
  "string \<Rightarrow> polygon_body reply \<Rightarrow> financialData_t http_response" where
  "api_polygon_financials symbolQ r =
     (case axios_get r of
        Inr body \<Rightarrow>
          (case results body of
             Some (first # others) \<Rightarrow> \<lparr>status = 200, sent = Json first\<rparr>
           | Some [] \<Rightarrow> \<lparr>status = 404, sent = Text ''No financial data available.''\<rparr>
           | None \<Rightarrow> \<lparr>status = 404, sent = Text ''No financial data available.''\<rparr>)
      | Inl e \<Rightarrow> \<lparr>status = 500, sent = Text ''Error fetching financial data.''\<rparr>)"

text \<open>A store that holds one record, and a run of four refreshes.\<close>

definition example_server :: server where
  "example_server =
     \<lparr>insiderData = [mk_trade ''AAPL'' ''P'' (Some (Num 100)) (Some (Num 1.5))], console = []\<rparr>"

definition example_run :: "finnhub_body reply list" where
  "example_run =
     [Reply 200 (DataArray [Some (mk_trade ''AAPL'' ''P'' None None),
                            Some (mk_trade ''BRK.B'' ''S'' None None),
                            Some (mk_trade ''ABC'' ''P'' None None)]),
      Unreachable ''timeout'',
      Reply 200 (DataArray [Some (mk_trade ''MSFT'' ''S'' None None), None]),
      Reply 503 NoBody]"

section \<open>Properties of the ratio analyzer\<close>

lemma num_or_zero: "num_or x (Num 0) = nan_to_zero x"
  by (cases x) (simp_all add: num_or_def nan_to_zero_def)

lemma opt_or_field: "opt_or v d = field_or_default d v"
  by (cases v; simp add: opt_or_def field_or_default_def num_or_def)
     (rename_tac x, case_tac x, simp_all)

lemma details_formula:
  "financials fd = Some fin \<Longrightarrow>
   details (analyzeFinancialData fd) = Some (formula_ratios
       (field_or_default (Num 0) (chain_value (income_statement fin) revenues))
       (field_or_default (Num 0) (chain_value (income_statement fin) net_income_loss))
       (field_or_default (Num 0) (chain_value (balance_sheet fin) assets))
       (field_or_default (Num 0) (chain_value (balance_sheet fin) current_assets))
       (field_or_default (Num 1) (chain_value (balance_sheet fin) current_liabilities))
       (field_or_default (Num 0) (chain_value (balance_sheet fin) liabilities))
       (field_or_default (Num 1) (chain_value (balance_sheet fin) equity)))"
  by (simp add: analyzeFinancialData_def Let_def formula_ratios_def num_or_zero opt_or_field)




lemma chain_value_item [simp]:
  "chain_value (Some st) f = (case f st of None \<Rightarrow> None | Some l \<Rightarrow> val l)"
  "chain_value None f = None"
  by (simp_all add: chain_value_def split: option.split)

lemma item_simp [simp]: "item x = Some \<lparr>val = Some (Num x)\<rparr>"
  by (simp add: item_def)

lemmas read_defs = revenue_read_def netIncome_read_def totalAssets_read_def
  currentAssets_read_def currentLiabilities_read_def totalLiabilities_read_def equity_read_def

lemma details_as_read:
  "financials fd = Some fin \<Longrightarrow>
   details (analyzeFinancialData fd) = Some (formula_ratios (revenue_read fin) (netIncome_read fin)
     (totalAssets_read fin) (currentAssets_read fin) (currentLiabilities_read fin)
     (totalLiabilities_read fin) (equity_read fin))"
  by (simp add: details_formula read_defs)

lemma nan_to_zero_times: "nan_to_zero (js_mul q (Num 100)) = js_mul (nan_to_zero q) (Num 100)"
  by (cases q) (simp_all add: nan_to_zero_def)

lemma policy_div_defined: "(b = Num 0 \<longrightarrow> a = Num 0) \<Longrightarrow> policy_div a b = nan_to_zero (js_div a b)"
  by (auto simp: policy_div_def nan_to_zero_def)

lemma one_default_nonzero: "field_or_default (Num 1) v \<noteq> Num 0"
  by (simp add: field_or_default_def split: option.split)

lemma recommendation_decided:
  "details (analyzeFinancialData fd) = Some d \<Longrightarrow>
   recommendation (analyzeFinancialData fd) =
     (if buy_condition d then ''BUY'' else if sell_condition d then ''SELL'' else ''HOLD'')"
  by (auto simp: analyzeFinancialData_def Let_def buy_condition_def sell_condition_def
      split: option.splits)

lemma ratios_defined:
  "financials fd = Some fin \<Longrightarrow> quotients_defined fin \<Longrightarrow>
   details (analyzeFinancialData fd) = Some (ratios_as_read fin)"
  by (simp add: details_as_read formula_ratios_def ratios_as_read_def policy_ratios_def
      nan_to_zero_times policy_div_defined quotients_defined_def
      equity_read_def currentLiabilities_read_def one_default_nonzero)

lemma read_mk [simp]:
  "revenue_read (the (financials (mk_financialData rv ni ta ca cl tlb eqv))) = (if rv = 0 then Num 0 else Num rv)"
  "netIncome_read (the (financials (mk_financialData rv ni ta ca cl tlb eqv))) = (if ni = 0 then Num 0 else Num ni)"
  "totalAssets_read (the (financials (mk_financialData rv ni ta ca cl tlb eqv))) = (if ta = 0 then Num 0 else Num ta)"
  "currentAssets_read (the (financials (mk_financialData rv ni ta ca cl tlb eqv))) = (if ca = 0 then Num 0 else Num ca)"
  "currentLiabilities_read (the (financials (mk_financialData rv ni ta ca cl tlb eqv))) = (if cl = 0 then Num 1 else Num cl)"
  "totalLiabilities_read (the (financials (mk_financialData rv ni ta ca cl tlb eqv))) = (if tlb = 0 then Num 0 else Num tlb)"
  "equity_read (the (financials (mk_financialData rv ni ta ca cl tlb eqv))) = (if eqv = 0 then Num 1 else Num eqv)"
  by (simp_all add: read_defs mk_financialData_def field_or_default_def)

lemma mk_the: "financials (mk_financialData rv ni ta ca cl tlb eqv) =
    Some (the (financials (mk_financialData rv ni ta ca cl tlb eqv)))"
  by (simp add: mk_financialData_def)

lemma chain_mk [simp]:
  "chain_value (income_statement (the (financials (mk_financialData rv ni ta ca cl tlb eqv)))) revenues = Some (Num rv)"
  "chain_value (income_statement (the (financials (mk_financialData rv ni ta ca cl tlb eqv)))) net_income_loss = Some (Num ni)"
  "chain_value (balance_sheet (the (financials (mk_financialData rv ni ta ca cl tlb eqv)))) assets = Some (Num ta)"
  "chain_value (balance_sheet (the (financials (mk_financialData rv ni ta ca cl tlb eqv)))) current_assets = Some (Num ca)"
  "chain_value (balance_sheet (the (financials (mk_financialData rv ni ta ca cl tlb eqv)))) current_liabilities = Some (Num cl)"
  "chain_value (balance_sheet (the (financials (mk_financialData rv ni ta ca cl tlb eqv)))) liabilities = Some (Num tlb)"
  "chain_value (balance_sheet (the (financials (mk_financialData rv ni ta ca cl tlb eqv)))) equity = Some (Num eqv)"
  by (simp_all add: mk_financialData_def)

text \<open>
  Claim C1, as amended. Without a financials object the result is HOLD with empty
  details. With one, \<open>analyzeFinancialData\<close> returns six ratios and decides on them: BUY
  exactly when netProfitMargin > 10, returnOnAssets > 5, returnOnEquity > 10,
  currentRatio > 1.5 and debtToEquity < 2 all hold (strictly); otherwise SELL exactly when
  netProfitMargin < 0 or returnOnAssets < 1 or currentRatio < 1; otherwise HOLD; a
  netProfitMargin of exactly 10 never gives BUY. The ratios it decides on are the six
  formulas over the operands as the source reads them, where an equity or current
  liabilities that is absent or reported as 0 counts as 1. This last part is stated for
  the inputs on which no ratio divides a non-zero numerator by a zero revenue or by zero
  total assets; nothing is said here about the ratios of the other inputs.
\<close>

theorem analyzeFinancialData_recommendation:
  "(financials fd = None \<longrightarrow>
      analyzeFinancialData fd = \<lparr>recommendation = ''HOLD'', details = None\<rparr>) \<and>
   (\<forall>fin. financials fd = Some fin \<longrightarrow>
      (\<exists>d. details (analyzeFinancialData fd) = Some d \<and>
           (quotients_defined fin \<longrightarrow> d = ratios_as_read fin) \<and>
           (recommendation (analyzeFinancialData fd) = ''BUY'' \<longleftrightarrow> buy_condition d) \<and>
           (recommendation (analyzeFinancialData fd) = ''SELL'' \<longleftrightarrow>
              \<not> buy_condition d \<and> sell_condition d) \<and>
           (recommendation (analyzeFinancialData fd) = ''HOLD'' \<longleftrightarrow>
              \<not> buy_condition d \<and> \<not> sell_condition d) \<and>
           (netProfitMargin d = Num 10 \<longrightarrow>
              recommendation (analyzeFinancialData fd) \<noteq> ''BUY'')))"
proof (intro conjI impI allI)
  assume "financials fd = None"
  then show "analyzeFinancialData fd = \<lparr>recommendation = ''HOLD'', details = None\<rparr>"
    by (simp add: analyzeFinancialData_def)
next
  fix fin
  assume f: "financials fd = Some fin"
  from details_as_read [OF f] obtain d where d: "details (analyzeFinancialData fd) = Some d"
    by blast
  have pin: "quotients_defined fin \<longrightarrow> d = ratios_as_read fin"
    using ratios_defined [OF f] d by simp
  note r = recommendation_decided [OF d]
  have ten: "netProfitMargin d = Num 10 \<longrightarrow> \<not> buy_condition d"
    by (simp add: buy_condition_def js_gt_def)
  show "\<exists>d. details (analyzeFinancialData fd) = Some d \<and>
           (quotients_defined fin \<longrightarrow> d = ratios_as_read fin) \<and>
           (recommendation (analyzeFinancialData fd) = ''BUY'' \<longleftrightarrow> buy_condition d) \<and>
           (recommendation (analyzeFinancialData fd) = ''SELL'' \<longleftrightarrow>
              \<not> buy_condition d \<and> sell_condition d) \<and>
           (recommendation (analyzeFinancialData fd) = ''HOLD'' \<longleftrightarrow>
              \<not> buy_condition d \<and> \<not> sell_condition d) \<and>
           (netProfitMargin d = Num 10 \<longrightarrow>
              recommendation (analyzeFinancialData fd) \<noteq> ''BUY'')"
    using d pin ten by (auto simp: r)
qed

text \<open>
  The BUY example of the specification (revenue 1000, net income 150, ...), a SELL input
  (net income -50), the boundary input with a margin of exactly 10, and an input without
  financials.
\<close>

theorem analyzeFinancialData_recommendation_witness:
  "recommendation (analyzeFinancialData (mk_financialData 1000 150 2000 500 200 300 1000)) = ''BUY'' \<and>
   recommendation (analyzeFinancialData (mk_financialData 1000 (-50) 2000 500 200 300 1000)) = ''SELL'' \<and>
   recommendation (analyzeFinancialData (mk_financialData 1000 100 1000 500 200 300 500)) = ''HOLD'' \<and>
   recommendation (analyzeFinancialData \<lparr>financials = None\<rparr>) = ''HOLD''"
proof -
  have eval: "\<And>rv ni ta ca cl tlb eqv.
      ratios_as_read (the (financials (mk_financialData rv ni ta ca cl tlb eqv))) =
      policy_ratios (if rv = 0 then Num 0 else Num rv) (if ni = 0 then Num 0 else Num ni)
        (if ta = 0 then Num 0 else Num ta) (if ca = 0 then Num 0 else Num ca)
        (if cl = 0 then Num 1 else Num cl) (if tlb = 0 then Num 0 else Num tlb)
        (if eqv = 0 then Num 1 else Num eqv)"
    by (simp add: ratios_as_read_def)
  have buy: "recommendation (analyzeFinancialData (mk_financialData 1000 150 2000 500 200 300 1000)) = ''BUY''"
    using analyzeFinancialData_recommendation [of "mk_financialData 1000 150 2000 500 200 300 1000",
        THEN conjunct2, THEN spec, THEN mp, OF mk_the]
    by (auto simp: quotients_defined_def eval policy_ratios_def policy_div_def nan_to_zero_def
         buy_condition_def sell_condition_def js_gt_def)
  have sell: "recommendation (analyzeFinancialData (mk_financialData 1000 (-50) 2000 500 200 300 1000)) = ''SELL''"
    using analyzeFinancialData_recommendation [of "mk_financialData 1000 (-50) 2000 500 200 300 1000",
        THEN conjunct2, THEN spec, THEN mp, OF mk_the]
    by (auto simp: quotients_defined_def eval policy_ratios_def policy_div_def nan_to_zero_def
         buy_condition_def sell_condition_def js_gt_def)
  have hold: "recommendation (analyzeFinancialData (mk_financialData 1000 100 1000 500 200 300 500)) = ''HOLD''"
    using analyzeFinancialData_recommendation [of "mk_financialData 1000 100 1000 500 200 300 500",
        THEN conjunct2, THEN spec, THEN mp, OF mk_the]
    by (auto simp: quotients_defined_def eval policy_ratios_def policy_div_def nan_to_zero_def
         buy_condition_def sell_condition_def js_gt_def)
  have none: "recommendation (analyzeFinancialData \<lparr>financials = None\<rparr>) = ''HOLD''"
    using analyzeFinancialData_recommendation [of "\<lparr>financials = None\<rparr>", THEN conjunct1]
    by simp
  from buy sell hold none show ?thesis by blast
qed

text \<open>
  The claim fails when its ratios are the formulas over the snapshot as the
  specification words them. With equity reported as 0 and total liabilities 1 (and the
  rest as in the BUY example) the source divides by 1 and returns BUY, while
  totalLiabilities / equity over the snapshot is not below 2 (a quotient by zero), and
  under the policy that a division by zero gives 0 the return on equity is 0: under either
  reading the BUY condition fails on the snapshot's ratios.
\<close>

theorem recommendation_zero_equity_counterexample:
  "recommendation (analyzeFinancialData (mk_financialData 1000 150 2000 500 200 1 0)) = ''BUY'' \<and>
   \<not> buy_condition (spec_ratios (the (financials (mk_financialData 1000 150 2000 500 200 1 0)))) \<and>
   \<not> buy_condition (spec_ratios_policy (the (financials (mk_financialData 1000 150 2000 500 200 1 0)))) \<and>
   debtToEquity (spec_ratios (the (financials (mk_financialData 1000 150 2000 500 200 1 0)))) = PosInf \<and>
   returnOnEquity (spec_ratios_policy (the (financials (mk_financialData 1000 150 2000 500 200 1 0)))) = Num 0 \<and>
   map_option debtToEquity (details (analyzeFinancialData (mk_financialData 1000 150 2000 500 200 1 0))) = Some (Num 1) \<and>
   map_option returnOnEquity (details (analyzeFinancialData (mk_financialData 1000 150 2000 500 200 1 0))) = Some (Num 15000)"
  by (simp add: analyzeFinancialData_def mk_financialData_def Let_def opt_or_def num_or_def
        spec_ratios_def formula_ratios_def spec_ratios_policy_def policy_ratios_def policy_div_def
        snapshot_field_def nan_to_zero_def buy_condition_def js_gt_def)

text \<open>
  Claim C2, as amended. With a financials object present, the six ratios are
  netIncome / revenue * 100, netIncome / totalAssets * 100, netIncome / equity * 100,
  currentAssets / currentLiabilities, totalLiabilities / equity and revenue / totalAssets,
  a division whose result is NaN being coerced to 0, over the operands as the source reads
  them: revenue, netIncome, totalAssets, currentAssets and totalLiabilities count as 0
  when absent, currentLiabilities and equity count as 1 when absent and also when
  reported as 0. Revenue 0 with net income 0 gives a margin of 0. A ratio that divides a
  non-zero numerator by a zero revenue or by zero total assets is left aside: each of the
  three ratios concerned is stated for the inputs where that does not happen. On those
  inputs, when neither currentLiabilities nor equity is reported as 0 (and no field is
  NaN), the ratios are the formulas over the snapshot as the specification words them.
\<close>

theorem analyzeFinancialData_ratios:
  "financials fd = Some fin \<Longrightarrow>
   \<exists>d. details (analyzeFinancialData fd) = Some d \<and>
     ((revenue_read fin = Num 0 \<longrightarrow> netIncome_read fin = Num 0) \<longrightarrow>
        netProfitMargin d = js_mul (policy_div (netIncome_read fin) (revenue_read fin)) (Num 100)) \<and>
     ((totalAssets_read fin = Num 0 \<longrightarrow> netIncome_read fin = Num 0) \<longrightarrow>
        returnOnAssets d = js_mul (policy_div (netIncome_read fin) (totalAssets_read fin)) (Num 100)) \<and>
     returnOnEquity d = js_mul (policy_div (netIncome_read fin) (equity_read fin)) (Num 100) \<and>
     currentRatio d = policy_div (currentAssets_read fin) (currentLiabilities_read fin) \<and>
     debtToEquity d = policy_div (totalLiabilities_read fin) (equity_read fin) \<and>
     ((totalAssets_read fin = Num 0 \<longrightarrow> revenue_read fin = Num 0) \<longrightarrow>
        assetTurnover d = policy_div (revenue_read fin) (totalAssets_read fin)) \<and>
     (chain_value (income_statement fin) revenues = Some (Num 0) \<and>
      chain_value (income_statement fin) net_income_loss = Some (Num 0) \<longrightarrow>
        netProfitMargin d = Num 0) \<and>
     (quotients_defined fin \<and>
      chain_value (income_statement fin) revenues \<noteq> Some NaN \<and>
      chain_value (income_statement fin) net_income_loss \<noteq> Some NaN \<and>
      chain_value (balance_sheet fin) assets \<noteq> Some NaN \<and>
      chain_value (balance_sheet fin) current_assets \<noteq> Some NaN \<and>
      chain_value (balance_sheet fin) liabilities \<noteq> Some NaN \<and>
      chain_value (balance_sheet fin) current_liabilities \<notin> {Some (Num 0), Some NaN} \<and>
      chain_value (balance_sheet fin) equity \<notin> {Some (Num 0), Some NaN} \<longrightarrow>
        d = spec_ratios_policy fin)"
proof -
  assume f: "financials fd = Some fin"
  let ?d = "formula_ratios (revenue_read fin) (netIncome_read fin)
     (totalAssets_read fin) (currentAssets_read fin) (currentLiabilities_read fin)
     (totalLiabilities_read fin) (equity_read fin)"
  have d: "details (analyzeFinancialData fd) = Some ?d" by (rule details_as_read [OF f])
  have eqn: "equity_read fin \<noteq> Num 0" "currentLiabilities_read fin \<noteq> Num 0"
    by (simp_all add: equity_read_def currentLiabilities_read_def one_default_nonzero)
  have 1: "netProfitMargin ?d = js_mul (policy_div (netIncome_read fin) (revenue_read fin)) (Num 100)"
    if "revenue_read fin = Num 0 \<longrightarrow> netIncome_read fin = Num 0"
    using that by (simp add: formula_ratios_def nan_to_zero_times policy_div_defined)
  have 2: "returnOnAssets ?d = js_mul (policy_div (netIncome_read fin) (totalAssets_read fin)) (Num 100)"
    if "totalAssets_read fin = Num 0 \<longrightarrow> netIncome_read fin = Num 0"
    using that by (simp add: formula_ratios_def nan_to_zero_times policy_div_defined)
  have 3: "returnOnEquity ?d = js_mul (policy_div (netIncome_read fin) (equity_read fin)) (Num 100)"
    using eqn by (simp add: formula_ratios_def nan_to_zero_times policy_div_defined)
  have 4: "currentRatio ?d = policy_div (currentAssets_read fin) (currentLiabilities_read fin)"
    using eqn by (simp add: formula_ratios_def policy_div_defined)
  have 5: "debtToEquity ?d = policy_div (totalLiabilities_read fin) (equity_read fin)"
    using eqn by (simp add: formula_ratios_def policy_div_defined)
  have 6: "assetTurnover ?d = policy_div (revenue_read fin) (totalAssets_read fin)"
    if "totalAssets_read fin = Num 0 \<longrightarrow> revenue_read fin = Num 0"
    using that by (simp add: formula_ratios_def policy_div_defined)
  have 7: "netProfitMargin ?d = Num 0"
    if "chain_value (income_statement fin) revenues = Some (Num 0) \<and>
        chain_value (income_statement fin) net_income_loss = Some (Num 0)"
    using that by (simp add: formula_ratios_def read_defs field_or_default_def nan_to_zero_def)
  have zero: "\<And>v. v \<noteq> Some NaN \<Longrightarrow> field_or_default (Num 0) v = snapshot_field (Num 0) v"
    by (auto simp: field_or_default_def snapshot_field_def split: option.split)
  have one: "\<And>v. v \<notin> {Some (Num 0), Some NaN} \<Longrightarrow>
               field_or_default (Num 1) v = snapshot_field (Num 1) v"
    by (auto simp: field_or_default_def snapshot_field_def split: option.split)
  have 8: "?d = spec_ratios_policy fin"
    if h: "quotients_defined fin \<and>
      chain_value (income_statement fin) revenues \<noteq> Some NaN \<and>
      chain_value (income_statement fin) net_income_loss \<noteq> Some NaN \<and>
      chain_value (balance_sheet fin) assets \<noteq> Some NaN \<and>
      chain_value (balance_sheet fin) current_assets \<noteq> Some NaN \<and>
      chain_value (balance_sheet fin) liabilities \<noteq> Some NaN \<and>
      chain_value (balance_sheet fin) current_liabilities \<notin> {Some (Num 0), Some NaN} \<and>
      chain_value (balance_sheet fin) equity \<notin> {Some (Num 0), Some NaN}"
  proof -
    from h have q: "quotients_defined fin" by simp
    from ratios_defined [OF f q] d have "?d = ratios_as_read fin" by simp
    also have "\<dots> = spec_ratios_policy fin"
      using h by (simp add: ratios_as_read_def spec_ratios_policy_def read_defs zero one)
    finally show ?thesis .
  qed
  from d 1 2 3 4 5 6 7 8 show ?thesis by blast
qed

text \<open>
  The example of the specification (revenue 1000, net income 150, ...), the input with
  revenue 0 and net income 0, and the input with equity reported as 0.
\<close>

theorem analyzeFinancialData_ratios_witness:
  "details (analyzeFinancialData (mk_financialData 1000 150 2000 500 200 300 1000)) =
     Some \<lparr>netProfitMargin = Num 15, returnOnAssets = Num 7.5, returnOnEquity = Num 15,
           currentRatio = Num 2.5, debtToEquity = Num 0.3, assetTurnover = Num 0.5\<rparr> \<and>
   details (analyzeFinancialData (mk_financialData 1000 150 2000 500 200 300 1000)) =
     Some (spec_ratios_policy (the (financials (mk_financialData 1000 150 2000 500 200 300 1000)))) \<and>
   map_option netProfitMargin
     (details (analyzeFinancialData (mk_financialData 0 0 2000 500 200 300 1000))) = Some (Num 0) \<and>
   map_option returnOnEquity
     (details (analyzeFinancialData (mk_financialData 1000 5 2000 500 200 300 0))) = Some (Num 500)"
proof -
  let ?a = "mk_financialData 1000 150 2000 500 200 300 1000"
  let ?b = "mk_financialData 0 0 2000 500 200 300 1000"
  note ta = analyzeFinancialData_ratios [OF mk_the, of 1000 150 2000 500 200 300 1000]
  note tb = analyzeFinancialData_ratios [OF mk_the, of 0 0 2000 500 200 300 1000]
  from ta obtain d where d: "details (analyzeFinancialData ?a) = Some d"
    and r: "netProfitMargin d = Num 15" "returnOnAssets d = Num 7.5" "returnOnEquity d = Num 15"
      "currentRatio d = Num 2.5" "debtToEquity d = Num 0.3" "assetTurnover d = Num 0.5"
    by (auto simp: policy_div_def nan_to_zero_def)
  from ta d have s: "d = spec_ratios_policy (the (financials ?a))"
    by (auto simp: quotients_defined_def)
  from tb obtain e where e: "details (analyzeFinancialData ?b) = Some e" and z: "netProfitMargin e = Num 0"
    by auto
  from r have v: "d = \<lparr>netProfitMargin = Num 15, returnOnAssets = Num 7.5, returnOnEquity = Num 15,
           currentRatio = Num 2.5, debtToEquity = Num 0.3, assetTurnover = Num 0.5\<rparr>"
    by simp
  have 1: "details (analyzeFinancialData ?a) =
     Some \<lparr>netProfitMargin = Num 15, returnOnAssets = Num 7.5, returnOnEquity = Num 15,
           currentRatio = Num 2.5, debtToEquity = Num 0.3, assetTurnover = Num 0.5\<rparr>"
    using d v by simp
  have 2: "details (analyzeFinancialData ?a) = Some (spec_ratios_policy (the (financials ?a)))"
    using d s by simp
  have 3: "map_option netProfitMargin (details (analyzeFinancialData ?b)) = Some (Num 0)"
    using e z by simp
  note tc = analyzeFinancialData_ratios [OF mk_the, of 1000 5 2000 500 200 300 0]
  from tc obtain g where
    g: "details (analyzeFinancialData (mk_financialData 1000 5 2000 500 200 300 0)) = Some g"
    and y: "returnOnEquity g = Num 500"
    by (auto simp: policy_div_def nan_to_zero_def)
  then have 4: "map_option returnOnEquity
     (details (analyzeFinancialData (mk_financialData 1000 5 2000 500 200 300 0))) = Some (Num 500)"
    by simp
  from 1 2 3 4 show ?thesis by blast
qed

text \<open>
  The claim as the specification words it fails where equity is reported as 0: with net
  income 5 the source returns a return on equity of 500, where netIncome / equity * 100
  over the snapshot is infinite, or 0 under the policy that a division by zero gives 0.
\<close>

theorem ratios_zero_equity_counterexample:
  "map_option returnOnEquity
      (details (analyzeFinancialData (mk_financialData 1000 5 2000 500 200 300 0))) = Some (Num 500) \<and>
   returnOnEquity (spec_ratios (the (financials (mk_financialData 1000 5 2000 500 200 300 0)))) = PosInf \<and>
   returnOnEquity (spec_ratios_policy (the (financials (mk_financialData 1000 5 2000 500 200 300 0)))) = Num 0 \<and>
   details (analyzeFinancialData (mk_financialData 1000 5 2000 500 200 300 0)) \<noteq>
     Some (spec_ratios (the (financials (mk_financialData 1000 5 2000 500 200 300 0)))) \<and>
   details (analyzeFinancialData (mk_financialData 1000 5 2000 500 200 300 0)) \<noteq>
     Some (spec_ratios_policy (the (financials (mk_financialData 1000 5 2000 500 200 300 0))))"
  by (simp add: analyzeFinancialData_def mk_financialData_def Let_def opt_or_def num_or_def
        spec_ratios_def formula_ratios_def spec_ratios_policy_def policy_ratios_def policy_div_def
        snapshot_field_def nan_to_zero_def)



section \<open>Properties of the symbol filter\<close>

lemma rx_match_plus_end:
  "rx_match [RangePlus lo hi, AssertEnd] pos s \<longleftrightarrow>
     s \<noteq> [] \<and> (\<forall>c\<in>set s. lo \<le> of_char c \<and> of_char c \<le> hi)"
  by (induction s arbitrary: pos) auto

lemma rx_search_after_start: "\<not> rx_search (AssertStart # items) (Suc pos) s"
  by (induction s arbitrary: pos) auto

lemma upper_range: "list_all (\<lambda>n::nat. upper_letter (char_of n)) [65..<91]"
  by code_simp

lemma upper_letter_code: "upper_letter c \<longleftrightarrow> (65::nat) \<le> of_char c \<and> of_char c \<le> (90::nat)"
proof
  assume "upper_letter c"
  then show "(65::nat) \<le> of_char c \<and> of_char c \<le> (90::nat)"
    by (auto simp: upper_letter_def)
next
  assume a: "(65::nat) \<le> of_char c \<and> of_char c \<le> (90::nat)"
  then have "(of_char c :: nat) \<in> {65..<91}" by auto
  then have "(of_char c :: nat) \<in> set [65..<91]" by (simp only: set_upt)
  with upper_range have "upper_letter (char_of (of_char c :: nat))"
    unfolding list_all_iff by blast
  then show "upper_letter c" by simp
qed

lemma isUsEquity_iff: "isUsEquity s \<longleftrightarrow> s \<noteq> [] \<and> list_all upper_letter s"
  by (cases s) (auto simp: isUsEquity_def rx_test_def rx_match_plus_end rx_search_after_start
       upper_letter_code list_all_iff)

text \<open>
  Claim C4. For every string \<open>s\<close>, \<open>isUsEquity s\<close> holds if and only if \<open>s\<close> is not
  empty and every character of it is one of the uppercase letters A to Z; so it holds for
  AAPL and fails for BRK.B, for 7203 and for the empty string.
\<close>

theorem isUsEquity_iff_uppercase:
  "(isUsEquity s \<longleftrightarrow> s \<noteq> [] \<and> list_all upper_letter s) \<and>
   isUsEquity ''AAPL'' \<and> \<not> isUsEquity ''BRK.B'' \<and> \<not> isUsEquity ''7203'' \<and> \<not> isUsEquity []"
  by (simp add: isUsEquity_iff) (simp add: upper_letter_def)

section \<open>Properties of the transaction table\<close>

lemma truthy_mul: "truthy a \<Longrightarrow> truthy b \<Longrightarrow> truthy (js_mul a b)"
  by (cases a; cases b) auto

lemma row_price_truthy: "row_price t = Some p \<Longrightarrow> truthy p"
  by (auto simp: row_price_def parseFloat_def split: option.splits if_splits)

lemma row_shares_truthy: "row_shares t \<noteq> Num 0 \<Longrightarrow> truthy (row_shares t)"
  by (auto simp: row_shares_def opt_or_def num_or_def split: option.splits if_splits)

lemma js_abs_positive: "js_lt (Num 0) x \<Longrightarrow> js_abs x = x"
  by (cases x) auto

text \<open>
  Claim C3, as amended. For a row whose price is available and whose share-count delta is
  not zero, the trade value is price * delta with the sign of the delta kept, and that
  amount is displayed; it is price * |delta| when the delta is positive. When the price
  is \<open>null\<close> the trade value is 0 and the cell shows N/A.
\<close>

theorem tradeValue_signed_product:
  "(row_price t = Some p \<and> row_shares t \<noteq> Num 0 \<longrightarrow>
      tradeValue t = js_mul p (row_shares t) \<and>
      valueCell (render_row t) = Dollars (js_mul p (row_shares t)) \<and>
      (js_lt (Num 0) (row_shares t) \<longrightarrow> tradeValue t = js_mul p (js_abs (row_shares t)))) \<and>
   (row_price t = None \<longrightarrow> tradeValue t = Num 0 \<and> valueCell (render_row t) = NA)"
proof (intro conjI impI)
  assume a: "row_price t = Some p \<and> row_shares t \<noteq> Num 0"
  then have tp: "truthy p" and ts: "truthy (row_shares t)"
    by (auto intro: row_price_truthy row_shares_truthy)
  from a tp ts show tv: "tradeValue t = js_mul p (row_shares t)"
    by (simp add: tradeValue_def)
  from tp ts show "valueCell (render_row t) = Dollars (js_mul p (row_shares t))"
    by (simp add: render_row_def tv truthy_mul)
  show "tradeValue t = js_mul p (js_abs (row_shares t))" if "js_lt (Num 0) (row_shares t)"
    using that by (simp add: tv js_abs_positive)
next
  assume "row_price t = None"
  then show "tradeValue t = Num 0" by (simp add: tradeValue_def)
next
  assume "row_price t = None"
  then show "valueCell (render_row t) = NA" by (simp add: render_row_def tradeValue_def)
qed

text \<open>Price 10 with a delta of 5 gives 50; the same record without a price gives N/A.\<close>

theorem tradeValue_signed_product_witness:
  "tradeValue (mk_trade ''ABC'' ''S'' (Some (Num 5)) (Some (Num 10))) = Num 50 \<and>
   valueCell (render_row (mk_trade ''ABC'' ''S'' (Some (Num 5)) (Some (Num 10)))) = Dollars (Num 50) \<and>
   tradeValue (mk_trade ''ABC'' ''S'' (Some (Num 5)) None) = Num 0 \<and>
   valueCell (render_row (mk_trade ''ABC'' ''S'' (Some (Num 5)) None)) = NA"
proof -
  have p: "row_price (mk_trade ''ABC'' ''S'' (Some (Num 5)) (Some (Num 10))) = Some (Num 10)"
    and s: "row_shares (mk_trade ''ABC'' ''S'' (Some (Num 5)) (Some (Num 10))) = Num 5"
    and n: "row_price (mk_trade ''ABC'' ''S'' (Some (Num 5)) None) = None"
    by (simp_all add: row_price_def row_shares_def mk_trade_def parseFloat_def opt_or_def num_or_def)
  from tradeValue_signed_product [of "mk_trade ''ABC'' ''S'' (Some (Num 5)) (Some (Num 10))" "Num 10"]
       tradeValue_signed_product [of "mk_trade ''ABC'' ''S'' (Some (Num 5)) None" "Num 10"]
  show ?thesis by (simp add: p s n)
qed

text \<open>
  The claim as the specification words it fails on a sale: price 10 with a delta of -5
  gives -50, where price * |delta| is 50.
\<close>

theorem tradeValue_absolute_counterexample:
  "row_price (mk_trade ''ABC'' ''S'' (Some (Num (-5))) (Some (Num 10))) = Some (Num 10) \<and>
   row_shares (mk_trade ''ABC'' ''S'' (Some (Num (-5))) (Some (Num 10))) = Num (-5) \<and>
   js_mul (Num 10) (js_abs (Num (-5))) = Num 50 \<and>
   tradeValue (mk_trade ''ABC'' ''S'' (Some (Num (-5))) (Some (Num 10))) = Num (-50) \<and>
   valueCell (render_row (mk_trade ''ABC'' ''S'' (Some (Num (-5))) (Some (Num 10)))) = Dollars (Num (-50)) \<and>
   valueCell (render_row (mk_trade ''ABC'' ''S'' (Some (Num (-5))) (Some (Num 10)))) \<noteq>
     Dollars (js_mul (Num 10) (js_abs (Num (-5))))"
  by (simp add: render_row_def tradeValue_def row_price_def row_shares_def mk_trade_def parseFloat_def
        opt_or_def num_or_def)

text \<open>
  The styling rule for a row whose price is available: a purchase at a price of at most 2
  is emphasized, any other purchase gets the standard style, every other row none.
\<close>

lemma row_class_with_price:
  "row_price t = Some p \<Longrightarrow>
   row_class t =
     (if transactionCode t = Some ''P''
      then (if js_le p (Num 2) then [''highlight-green-bold''] else [''highlight-green''])
      else [])"
  by (auto simp: row_class_def to_number_def str_or_def split: option.splits)

text \<open>
  Claim C9. A purchase whose price is not available is styled emphasized-positive, although
  its price cell shows N/A: \<open>price\<close> is \<open>null\<close> there and \<open>null <= 2\<close> holds in
  JavaScript. With a price the rule is as claimed: 1.5 gives the emphasized style, 2.5 the
  standard one.
\<close>

theorem row_class_missing_price:
  "row_price (mk_trade ''ABC'' ''P'' (Some (Num 100)) None) = None \<and>
   priceCell (render_row (mk_trade ''ABC'' ''P'' (Some (Num 100)) None)) = NA \<and>
   row_class (mk_trade ''ABC'' ''P'' (Some (Num 100)) None) = [''highlight-green-bold''] \<and>
   classList (render_row (mk_trade ''ABC'' ''P'' (Some (Num 100)) None)) = [''highlight-green-bold''] \<and>
   row_class (mk_trade ''ABC'' ''P'' (Some (Num 100)) (Some (Num 1.5))) = [''highlight-green-bold''] \<and>
   row_class (mk_trade ''ABC'' ''P'' (Some (Num 100)) (Some (Num 2.5))) = [''highlight-green'']"
  by (simp add: render_row_def row_class_def row_price_def mk_trade_def parseFloat_def
        to_number_def str_or_def js_le_def)

section \<open>Properties of the detail view\<close>

text \<open>
  Claim C7. When the price fetch succeeds and the financials fetch returns \<open>null\<close>, the
  handler passes the default analysis with the empty details to \<open>showModal\<close>, which
  throws while it builds the content: the title has changed, the content and the display
  style are what they were, so a modal that was hidden stays hidden.
\<close>

theorem row_click_without_financials_throws:
  "row_click m companyName (Some si) None =
     (m\<lparr>modalTitle := ''Detailed Analysis for '' @ companyName\<rparr>,
      Some (TypeError ''Cannot read properties of undefined (reading toFixed)'')) \<and>
   display (fst (row_click m companyName (Some si) None)) = display m \<and>
   modalContent (fst (row_click m companyName (Some si) None)) = modalContent m \<and>
   display (fst (row_click closed_modal ''ABC'' (Some some_stockInfo) None)) = ''none''"
  by (simp add: row_click_def showModal_def closed_modal_def Let_def)

text \<open>With financials the detail view opens and nothing is thrown.\<close>

lemma row_click_with_financials_opens:
  "financials fd = Some fin \<Longrightarrow>
   display (fst (row_click m c (Some si) (Some fd))) = ''flex'' \<and>
   snd (row_click m c (Some si) (Some fd)) = None"
  by (simp add: row_click_def showModal_def createChart_def Let_def details_formula
      analyzeFinancialData_def)

section \<open>Properties of the refresh and of the store\<close>

lemma filter_trades_result:
  "filter_trades items =
     (if None \<in> set items then Inl (TypeError ''Cannot read properties of null'')
      else Inr (filter (\<lambda>t. isUsEquity (symbol_text t)) (map the items)))"
proof (induction items)
  case Nil
  show ?case by simp
next
  case (Cons x xs)
  show ?case
  proof (cases x)
    case None
    then show ?thesis by simp
  next
    case (Some t)
    then show ?thesis using Cons.IH by simp
  qed
qed

lemma try_refresh_failure:
  "complete_response r = None \<Longrightarrow> \<exists>e. try_refresh r = Inl e"
proof (cases r)
  case (Unreachable m)
  then show ?thesis by (simp add: try_refresh_def)
next
  case (Reply st b)
  assume c: "complete_response r = None"
  show ?thesis
  proof (cases "200 \<le> st \<and> st < 300")
    case False
    with Reply show ?thesis by (auto simp: try_refresh_def)
  next
    case True
    show ?thesis
    proof (cases b)
      case NoBody
      with Reply True show ?thesis by (simp add: try_refresh_def)
    next
      case NoDataArray
      with Reply True show ?thesis by (simp add: try_refresh_def)
    next
      case (DataArray items)
      with c Reply True have "None \<in> set items" by (simp split: if_splits)
      with Reply True DataArray show ?thesis
        by (simp add: try_refresh_def filter_trades_result)
    qed
  qed
qed

lemma refresh_failure:
  "complete_response r = None \<Longrightarrow>
   \<exists>e. fetchInsiderTradingData s r =
        s\<lparr>console := console s @ [''Error fetching insider trading data: '' @ error_message e]\<rparr>"
proof -
  assume "complete_response r = None"
  then obtain e where "try_refresh r = Inl e" using try_refresh_failure by blast
  then have "fetchInsiderTradingData s r =
        s\<lparr>console := console s @ [''Error fetching insider trading data: '' @ error_message e]\<rparr>"
    by (simp add: fetchInsiderTradingData_def)
  then show ?thesis ..
qed

lemma refresh_success:
  "complete_response r = Some items \<Longrightarrow>
   insiderData (fetchInsiderTradingData s r) = filter (\<lambda>t. isUsEquity (symbol_text t)) items"
proof (cases r)
  case (Unreachable m)
  assume "complete_response r = Some items"
  with Unreachable show ?thesis by simp
next
  case (Reply st b)
  assume c: "complete_response r = Some items"
  show ?thesis
  proof (cases b)
    case (DataArray xs)
    with c Reply have "200 \<le> st \<and> st < 300" "None \<notin> set xs" "items = map the xs"
      by (auto split: if_splits)
    with Reply DataArray show ?thesis
      by (simp add: fetchInsiderTradingData_def try_refresh_def filter_trades_result)
  next
    case NoBody
    with c Reply show ?thesis by simp
  next
    case NoDataArray
    with c Reply show ?thesis by simp
  qed
qed

lemma refresh_step:
  "insiderData (fetchInsiderTradingData s r) =
     (case complete_response r of
        None \<Rightarrow> insiderData s
      | Some items \<Rightarrow> filter (\<lambda>t. isUsEquity (symbol_text t)) items)"
proof (cases "complete_response r")
  case None
  from refresh_failure [OF None, of s] obtain e where
    "fetchInsiderTradingData s r =
        s\<lparr>console := console s @ [''Error fetching insider trading data: '' @ error_message e]\<rparr>"
    by blast
  then show ?thesis using None by simp
next
  case (Some items)
  then show ?thesis by (simp add: refresh_success)
qed

lemma run_snapshot:
  "insiderData (run s rs) =
     (case last_complete rs of
        None \<Rightarrow> insiderData s
      | Some items \<Rightarrow> filter (\<lambda>t. isUsEquity (symbol_text t)) items)"
proof (induction rs arbitrary: s)
  case Nil
  show ?case by simp
next
  case (Cons r rs)
  show ?case
    by (simp add: Cons.IH refresh_step split: option.split)
qed

lemma failed_refresh_cases:
  "complete_response r = None \<longleftrightarrow>
     (\<exists>m. r = Unreachable m) \<or>
     (\<exists>st b. r = Reply st b \<and> \<not> (200 \<le> st \<and> st < 300)) \<or>
     (\<exists>st. r = Reply st NoBody) \<or>
     (\<exists>st. r = Reply st NoDataArray) \<or>
     (\<exists>st items. r = Reply st (DataArray items) \<and> None \<in> set items)"
proof (cases r)
  case (Unreachable m)
  then show ?thesis by simp
next
  case (Reply st b)
  then show ?thesis by (cases b) auto
qed

text \<open>
  Claim C5. Whatever the store holds, a refresh that fails leaves the snapshot served by
  \<open>getTransactions\<close> as it was, and the only change of the state is one more line in
  the log. A refresh fails when the provider is unreachable, when it answers with a status
  outside 2xx, or when the body is malformed: no body, no array under \<open>data\<close>, or an
  array with a \<open>null\<close> element.
\<close>

theorem failed_refresh_keeps_snapshot:
  "(\<exists>m. r = Unreachable m) \<or>
   (\<exists>st b. r = Reply st b \<and> \<not> (200 \<le> st \<and> st < 300)) \<or>
   (\<exists>st. r = Reply st NoBody) \<or>
   (\<exists>st. r = Reply st NoDataArray) \<or>
   (\<exists>st items. r = Reply st (DataArray items) \<and> None \<in> set items) \<Longrightarrow>
   getTransactions (fetchInsiderTradingData s r) = getTransactions s \<and>
   (\<exists>e. fetchInsiderTradingData s r =
        s\<lparr>console := console s @ [''Error fetching insider trading data: '' @ error_message e]\<rparr>)"
proof -
  assume "(\<exists>m. r = Unreachable m) \<or>
   (\<exists>st b. r = Reply st b \<and> \<not> (200 \<le> st \<and> st < 300)) \<or>
   (\<exists>st. r = Reply st NoBody) \<or>
   (\<exists>st. r = Reply st NoDataArray) \<or>
   (\<exists>st items. r = Reply st (DataArray items) \<and> None \<in> set items)"
  then have c: "complete_response r = None" by (simp only: failed_refresh_cases)
  from refresh_failure [OF c, of s] obtain e where
    e: "fetchInsiderTradingData s r =
        s\<lparr>console := console s @ [''Error fetching insider trading data: '' @ error_message e]\<rparr>"
    by blast
  then have "getTransactions (fetchInsiderTradingData s r) = getTransactions s"
    by (simp add: getTransactions_def)
  with e show ?thesis by blast
qed

text \<open>
  A store with one record, and four failing refreshes: a network error, a 503, a body
  without the array, and an array with a \<open>null\<close> element.
\<close>

theorem failed_refresh_keeps_snapshot_witness:
  "getTransactions (fetchInsiderTradingData example_server (Unreachable ''timeout'')) =
     [mk_trade ''AAPL'' ''P'' (Some (Num 100)) (Some (Num 1.5))] \<and>
   getTransactions (fetchInsiderTradingData example_server (Reply 503 NoBody)) =
     [mk_trade ''AAPL'' ''P'' (Some (Num 100)) (Some (Num 1.5))] \<and>
   getTransactions (fetchInsiderTradingData example_server (Reply 200 NoDataArray)) =
     [mk_trade ''AAPL'' ''P'' (Some (Num 100)) (Some (Num 1.5))] \<and>
   getTransactions (fetchInsiderTradingData example_server
       (Reply 200 (DataArray [Some (mk_trade ''MSFT'' ''S'' None None), None]))) =
     [mk_trade ''AAPL'' ''P'' (Some (Num 100)) (Some (Num 1.5))]"
  using failed_refresh_keeps_snapshot [of "Unreachable ''timeout''" example_server]
        failed_refresh_keeps_snapshot [of "Reply 503 NoBody" example_server]
        failed_refresh_keeps_snapshot [of "Reply 200 NoDataArray" example_server]
        failed_refresh_keeps_snapshot
          [of "Reply 200 (DataArray [Some (mk_trade ''MSFT'' ''S'' None None), None])" example_server]
  by (simp add: getTransactions_def example_server_def)

lemma kept_symbol:
  "isUsEquity (symbol_text t) \<Longrightarrow> \<exists>sym. symbol t = Some sym \<and> isUsEquity sym"
  by (cases "symbol t") (simp_all add: symbol_text_def isUsEquity_iff upper_letter_def)

text \<open>
  Claim C6, as amended. After any run of refreshes from the initial state in which a
  refresh has succeeded, the snapshot served by \<open>getTransactions\<close> is one complete
  response of the run, the last one, filtered by \<open>isUsEquity\<close> on the symbol, in
  the order of the response; while no refresh has succeeded it is the empty list. So the
  snapshot never mixes two responses, and every record in it has a symbol that matches
  the pattern.
\<close>

theorem snapshot_is_one_filtered_response:
  "getTransactions (run initial_server rs) =
     (case last_complete rs of
        None \<Rightarrow> []
      | Some items \<Rightarrow> filter (\<lambda>t. isUsEquity (symbol_text t)) items) \<and>
   (\<forall>t \<in> set (getTransactions (run initial_server rs)).
      \<exists>sym. symbol t = Some sym \<and> isUsEquity sym)"
proof
  show first: "getTransactions (run initial_server rs) =
     (case last_complete rs of
        None \<Rightarrow> []
      | Some items \<Rightarrow> filter (\<lambda>t. isUsEquity (symbol_text t)) items)"
    by (simp add: getTransactions_def run_snapshot initial_server_def split: option.split)
  show "\<forall>t \<in> set (getTransactions (run initial_server rs)).
      \<exists>sym. symbol t = Some sym \<and> isUsEquity sym"
    unfolding first by (auto split: option.split intro: kept_symbol)
qed

text \<open>
  A run in which the first refresh succeeds and the next three fail: the snapshot is the
  first response without the record of BRK.B.
\<close>

theorem snapshot_is_one_filtered_response_witness:
  "getTransactions (run initial_server example_run) =
     [mk_trade ''AAPL'' ''P'' None None, mk_trade ''ABC'' ''P'' None None] \<and>
   (\<exists>sym. symbol (mk_trade ''AAPL'' ''P'' None None) = Some sym \<and> isUsEquity sym) \<and>
   (\<exists>sym. symbol (mk_trade ''ABC'' ''P'' None None) = Some sym \<and> isUsEquity sym)"
proof -
  have l: "last_complete example_run =
      Some [mk_trade ''AAPL'' ''P'' None None, mk_trade ''BRK.B'' ''S'' None None,
            mk_trade ''ABC'' ''P'' None None]"
    by (simp add: example_run_def)
  have f: "filter (\<lambda>t. isUsEquity (symbol_text t))
        [mk_trade ''AAPL'' ''P'' None None, mk_trade ''BRK.B'' ''S'' None None,
         mk_trade ''ABC'' ''P'' None None] =
      [mk_trade ''AAPL'' ''P'' None None, mk_trade ''ABC'' ''P'' None None]"
    by (simp add: symbol_text_def mk_trade_def isUsEquity_def rx_test_def)
  note t = snapshot_is_one_filtered_response [of example_run]
  have g: "getTransactions (run initial_server example_run) =
     [mk_trade ''AAPL'' ''P'' None None, mk_trade ''ABC'' ''P'' None None]"
    using t [THEN conjunct1] by (simp only: l option.case f)
  have h: "(\<exists>sym. symbol (mk_trade ''AAPL'' ''P'' None None) = Some sym \<and> isUsEquity sym) \<and>
      (\<exists>sym. symbol (mk_trade ''ABC'' ''P'' None None) = Some sym \<and> isUsEquity sym)"
    using t [THEN conjunct2] unfolding g by simp
  from g h show ?thesis by blast
qed

text \<open>
  The claim as worded fails in the states that no complete response has reached: at
  startup, and after refreshes that all failed (a network error, a 401 for a missing API
  key), the store serves the empty list, which is the filter of no response of the run.
\<close>

theorem snapshot_without_response_counterexample:
  "getTransactions (run initial_server []) = [] \<and>
   getTransactions (run initial_server [Unreachable ''no key'', Reply 401 NoBody]) = [] \<and>
   complete_response (Unreachable ''no key'' :: finnhub_body reply) = None \<and>
   complete_response (Reply 401 NoBody) = None \<and>
   \<not> (\<exists>r items. r \<in> set [Unreachable ''no key'', Reply 401 NoBody] \<and>
          complete_response r = Some items \<and>
          getTransactions (run initial_server [Unreachable ''no key'', Reply 401 NoBody]) =
            filter (\<lambda>t. isUsEquity (symbol_text t)) items)"
  by (auto simp: getTransactions_def initial_server_def fetchInsiderTradingData_def try_refresh_def)

section \<open>Properties of the forwarding endpoints\<close>

lemma api_tiingo_propagates_status:
  "\<not> (200 \<le> st \<and> st < 300) \<Longrightarrow> st \<noteq> 0 \<Longrightarrow> status (api_tiingo q (Reply st b)) = st"
  by (auto simp: api_tiingo_def)

lemma api_tiingo_unreachable: "status (api_tiingo q (Unreachable m)) = 500"
  by (simp add: api_tiingo_def)

lemma api_polygon_financials_error_status:
  "\<not> (200 \<le> st \<and> st < 300) \<Longrightarrow> status (api_polygon_financials q (Reply st b)) = 500"
  by (auto simp: api_polygon_financials_def)

text \<open>
  Claim C8. When the provider answers 429, \<open>/api/tiingo\<close> answers 429 and
  \<open>/api/polygon-financials\<close> answers 500.
\<close>

theorem polygon_financials_drops_provider_status:
  "status (api_polygon_financials ''ABC'' (Reply 429 \<lparr>results = None\<rparr>)) = 500 \<and>
   status (api_tiingo ''ABC'' (Reply 429 (None :: unit list option))) = 429"
  by (simp add: api_polygon_financials_def api_tiingo_def)

end
